theory Spec2Isabelle
  imports Complex_Main
begin

section \<open>The step-processing pipeline (ufo/module/processors/basic.py)\<close>

subsection \<open>The processor object\<close>

text \<open>
  A \<^verbatim>\<open>Logger\<close> is seen through the only method the processor calls on it,
  \<^verbatim>\<open>info\<close>: it is the list of the messages passed to \<^verbatim>\<open>info\<close> so far, oldest first.
  The photographer, the application window and the scratch fields hold Python objects the
  pipeline never inspects; they are values of a type parameter \<open>'v\<close>, and a field that
  \<^verbatim>\<open>__init__\<close> sets to \<^verbatim>\<open>None\<close> is an option. A field whose Python name starts with an
  underscore carries the prefix \<open>priv_\<close>.
\<close>

type_synonym logger = "string list"

record 'v processor =
  log_path :: string
  photographer :: 'v
  request :: string
  request_logger :: logger
  logger :: logger
  priv_app_window :: 'v
  global_step :: int
  round_step :: int
  prev_status :: string
  index :: int
  priv_step :: int
  priv_status :: string
  priv_prompt_message :: "'v option"
  priv_response :: "'v option"
  priv_cost :: real
  priv_control_label :: "'v option"
  priv_control_text :: "'v option"
  priv_response_json :: "'v option"
  priv_results :: "'v option"
  app_root :: "'v option"

text \<open>\<^verbatim>\<open>BaseProcessor.__init__\<close>, with the arguments in the order of the source.\<close>

definition BaseProcessor_init ::
  "int \<Rightarrow> string \<Rightarrow> 'v \<Rightarrow> string \<Rightarrow> logger \<Rightarrow> logger \<Rightarrow> int \<Rightarrow> int \<Rightarrow> string \<Rightarrow> 'v
    \<Rightarrow> 'v processor" where
  "BaseProcessor_init index' log_path' photographer' request' request_logger' logger'
       round_step' global_step' prev_status' app_window' =
     \<lparr> log_path = log_path',
       photographer = photographer',
       request = request',
       request_logger = request_logger',
       logger = logger',
       priv_app_window = app_window',
       global_step = global_step',
       round_step = round_step',
       prev_status = prev_status',
       index = index',
       priv_step = 0,
       priv_status = prev_status',
       priv_prompt_message = None,
       priv_response = None,
       priv_cost = 0,
       priv_control_label = None,
       priv_control_text = None,
       priv_response_json = None,
       priv_results = None,
       app_root = None \<rparr>"

subsection \<open>The methods a concrete processor supplies\<close>

text \<open>
  \<^verbatim>\<open>BaseProcessor\<close> is abstract: the nine stage methods marked \<^verbatim>\<open>@abstractmethod\<close> are
  written by the concrete processor, and \<^verbatim>\<open>should_create_appagent\<close> and
  \<^verbatim>\<open>create_app_agent\<close> are policy methods with a default body that a concrete processor
  may replace. A stage reads and writes the fields of \<^verbatim>\<open>self\<close> and returns; it is a
  function from the object before the call to the object after it. (A stage that raises
  ends \<^verbatim>\<open>process\<close> with that exception; \<^verbatim>\<open>process\<close> itself has no \<^verbatim>\<open>raise\<close> and no
  \<^verbatim>\<open>try\<close>, and the development is about the stages that return.)
\<close>

record 'v impl =
  print_step_info :: "'v processor \<Rightarrow> 'v processor"
  capture_screenshot :: "'v processor \<Rightarrow> 'v processor"
  get_control_info :: "'v processor \<Rightarrow> 'v processor"
  get_prompt_message :: "'v processor \<Rightarrow> 'v processor"
  get_response :: "'v processor \<Rightarrow> 'v processor"
  parse_response :: "'v processor \<Rightarrow> 'v processor"
  execute_action :: "'v processor \<Rightarrow> 'v processor"
  update_memory :: "'v processor \<Rightarrow> 'v processor"
  update_status :: "'v processor \<Rightarrow> 'v processor"
  should_create_appagent :: "'v processor \<Rightarrow> bool"
  create_app_agent :: "'v processor \<Rightarrow> 'v processor"

text \<open>The bodies \<^verbatim>\<open>BaseProcessor\<close> itself gives to the two policy methods.\<close>

definition BaseProcessor_should_create_appagent :: "'v processor \<Rightarrow> bool" where
  "BaseProcessor_should_create_appagent p = False"

definition BaseProcessor_create_app_agent :: "'v processor \<Rightarrow> 'v processor" where
  "BaseProcessor_create_app_agent p = p"

subsection \<open>The concrete methods of BaseProcessor\<close>

definition is_error :: "'v processor \<Rightarrow> bool" where
  "is_error p = (priv_status p = ''ERROR'')"

definition get_process_status :: "'v processor \<Rightarrow> string" where
  "get_process_status p = priv_status p"

definition get_process_step :: "'v processor \<Rightarrow> int" where
  "get_process_step p = priv_step p"

definition get_process_cost :: "'v processor \<Rightarrow> real" where
  "get_process_cost p = priv_cost p"

text \<open>
  One run of \<^verbatim>\<open>process\<close> is followed through the object and the list of the methods
  \<^verbatim>\<open>process\<close> has invoked on it, in the order of the invocations.
\<close>

datatype call =
    Print_step_info
  | Capture_screenshot
  | Get_control_info
  | Get_prompt_message
  | Get_response
  | Is_error
  | Parse_response
  | Execute_action
  | Update_memory
  | Should_create_appagent
  | Create_app_agent
  | Update_step_and_status
  | Update_status

record 'v run =
  self :: "'v processor"
  calls :: "call list"

definition invoke :: "call \<Rightarrow> ('v processor \<Rightarrow> 'v processor) \<Rightarrow> 'v run \<Rightarrow> 'v run" where
  "invoke c f r = \<lparr> self = f (self r), calls = calls r @ [c] \<rparr>"

definition query :: "call \<Rightarrow> 'v run \<Rightarrow> 'v run" where
  "query c r = r \<lparr> calls := calls r @ [c] \<rparr>"

text \<open>
  \<^verbatim>\<open>update_step_and_status\<close>: \<^verbatim>\<open>self._step += 1\<close>, then \<^verbatim>\<open>self.update_status()\<close>.
\<close>

definition update_step_and_status :: "'v impl \<Rightarrow> 'v run \<Rightarrow> 'v run" where
  "update_step_and_status S r =
     (let r = query Update_step_and_status r;
          r = r \<lparr> self := (self r) \<lparr> priv_step := priv_step (self r) + 1 \<rparr> \<rparr>
      in invoke Update_status (update_status S) r)"

text \<open>
  \<^verbatim>\<open>process\<close>. Each \<^verbatim>\<open>return\<close> of the source is the branch of an \<open>if\<close> that hands the
  run back as it stands.
\<close>

definition process :: "'v impl \<Rightarrow> 'v processor \<Rightarrow> 'v run" where
  "process S p =
     (let r = \<lparr> self = p, calls = [] \<rparr>;
          r = invoke Print_step_info (print_step_info S) r;
          r = invoke Capture_screenshot (capture_screenshot S) r;
          r = invoke Get_control_info (get_control_info S) r;
          r = invoke Get_prompt_message (get_prompt_message S) r;
          r = invoke Get_response (get_response S) r;
          r = query Is_error r
      in if is_error (self r) then r
         else
           let r = invoke Parse_response (parse_response S) r;
               r = query Is_error r
           in if is_error (self r) then r
              else
                let r = invoke Execute_action (execute_action S) r;
                    r = invoke Update_memory (update_memory S) r;
                    r = query Should_create_appagent r;
                    r = (if should_create_appagent S (self r)
                         then invoke Create_app_agent (create_app_agent S) r
                         else r)
                in update_step_and_status S r)"

subsection \<open>Logging\<close>

text \<open>
  The argument of \<^verbatim>\<open>json.dumps\<close> is a dictionary literal: its keys in the order they are
  written, each with an integer or a string. \<^verbatim>\<open>json.dumps\<close> belongs to the Python
  library; it is the parameter \<open>dumps\<close>.
\<close>

datatype json = JInt int | JStr string | JObj "(string \<times> json) list"

definition error_record :: "'v processor \<Rightarrow> string \<Rightarrow> string \<Rightarrow> json" where
  "error_record p response_str error =
     JObj [(''step'', JInt (priv_step p)), (''status'', JStr ''ERROR''),
           (''response'', JStr response_str), (''error'', JStr error)]"

definition info :: "logger \<Rightarrow> string \<Rightarrow> logger" where
  "info l msg = l @ [msg]"

definition error_log ::
  "(json \<Rightarrow> string) \<Rightarrow> 'v processor \<Rightarrow> string \<Rightarrow> string \<Rightarrow> 'v processor" where
  "error_log dumps p response_str error =
     (let log = dumps (error_record p response_str error)
      in p \<lparr> logger := info (logger p) log \<rparr>)"

text \<open>
  \<^verbatim>\<open>BaseProcessor.log\<close>; the name \<open>log\<close> is the logarithm of the library, so the method is
  \<open>log_response\<close> here.
\<close>

definition log_response :: "(json \<Rightarrow> string) \<Rightarrow> 'v processor \<Rightarrow> json \<Rightarrow> 'v processor" where
  "log_response dumps p response_json = p \<lparr> logger := info (logger p) (dumps response_json) \<rparr>"

text \<open>The keys of a JSON object, and the value under a key (the last one written wins).\<close>

fun json_keys :: "json \<Rightarrow> string list" where
  "json_keys (JObj kvs) = map fst kvs"
| "json_keys _ = []"

fun json_get :: "json \<Rightarrow> string \<Rightarrow> json option" where
  "json_get (JObj kvs) k = map_of (rev kvs) k"
| "json_get _ k = None"

fun is_object :: "json \<Rightarrow> bool" where
  "is_object (JObj kvs) = True"
| "is_object _ = False"

subsection \<open>The object a stage leaves behind\<close>

text \<open>
  The object as it is when \<^verbatim>\<open>get_response\<close> returns, when \<^verbatim>\<open>parse_response\<close> returns,
  when \<^verbatim>\<open>update_memory\<close> returns, and after the conditional creation of the app agent,
  in a run of \<^verbatim>\<open>process\<close> on \<open>p\<close> that gets that far.
\<close>

definition after_get_response :: "'v impl \<Rightarrow> 'v processor \<Rightarrow> 'v processor" where
  "after_get_response S p =
     get_response S (get_prompt_message S (get_control_info S
       (capture_screenshot S (print_step_info S p))))"

definition after_parse_response :: "'v impl \<Rightarrow> 'v processor \<Rightarrow> 'v processor" where
  "after_parse_response S p = parse_response S (after_get_response S p)"

definition after_update_memory :: "'v impl \<Rightarrow> 'v processor \<Rightarrow> 'v processor" where
  "after_update_memory S p = update_memory S (execute_action S (after_parse_response S p))"

definition after_creation :: "'v impl \<Rightarrow> 'v processor \<Rightarrow> 'v processor" where
  "after_creation S p =
     (let q = after_update_memory S p
      in if should_create_appagent S q then create_app_agent S q else q)"

text \<open>The stages that a short-circuit at check A and at check B leaves out.\<close>

definition skipped_at_A :: "call list" where
  "skipped_at_A = [Parse_response, Execute_action, Update_memory, Should_create_appagent,
                   Create_app_agent, Update_step_and_status, Update_status]"

definition skipped_at_B :: "call list" where
  "skipped_at_B = [Execute_action, Update_memory, Should_create_appagent,
                   Create_app_agent, Update_step_and_status, Update_status]"

definition keeps_step :: "('v processor \<Rightarrow> 'v processor) \<Rightarrow> bool" where
  "keeps_step f = (\<forall>q. priv_step (f q) = priv_step q)"

definition keeps_status :: "('v processor \<Rightarrow> 'v processor) \<Rightarrow> bool" where
  "keeps_status f = (\<forall>q. priv_status (f q) = priv_status q)"

section \<open>The agent states of the app role (ufo/agents/states/app_agent_state.py)\<close>

subsection \<open>Status codes, classes and inheritance\<close>

datatype AppAgentStatus = ERROR | FINISH | SWITCH | CONTINUE | FAIL | PENDING | CONFIRM | SCREENSHOT

fun status_value :: "AppAgentStatus \<Rightarrow> string" where
  "status_value ERROR = ''ERROR''"
| "status_value FINISH = ''FINISH''"
| "status_value SWITCH = ''SWITCH''"
| "status_value CONTINUE = ''CONTINUE''"
| "status_value FAIL = ''FAIL''"
| "status_value PENDING = ''PENDING''"
| "status_value CONFIRM = ''CONFIRM''"
| "status_value SCREENSHOT = ''SCREENSHOT''"

text \<open>
  The state classes of the file: the abstract \<^verbatim>\<open>AppAgentState\<close> and the nine classes
  registered with \<^verbatim>\<open>@AppAgentStateManager.register\<close>, in the order of the file.
\<close>

datatype app_class =
    AppAgentState
  | FinishAppAgentState
  | ContinueAppAgentState
  | ScreenshotAppAgentState
  | SwitchAppAgentState
  | PendingAppAgentState
  | ConfirmAppAgentState
  | ErrorAppAgentState
  | FailAppAgentState
  | NoneAppAgentState

definition registered :: "app_class list" where
  "registered = [FinishAppAgentState, ContinueAppAgentState, ScreenshotAppAgentState,
                 SwitchAppAgentState, PendingAppAgentState, ConfirmAppAgentState,
                 ErrorAppAgentState, FailAppAgentState, NoneAppAgentState]"

text \<open>\<^verbatim>\<open>AppAgentStateManager.none_state\<close>: a state of class \<^verbatim>\<open>NoneAppAgentState\<close>.\<close>

definition none_state :: app_class where
  "none_state = NoneAppAgentState"

text \<open>
  The class named in the parentheses of each \<^verbatim>\<open>class\<close> statement. \<^verbatim>\<open>AppAgentState\<close>
  extends \<^verbatim>\<open>AgentState\<close>, which is declared in ufo/agents/states/basic.py: the chain
  ends there.
\<close>

fun superclass :: "app_class \<Rightarrow> app_class option" where
  "superclass AppAgentState = None"
| "superclass ScreenshotAppAgentState = Some ContinueAppAgentState"
| "superclass c = Some AppAgentState"

fun depth :: "app_class \<Rightarrow> nat" where
  "depth AppAgentState = 0"
| "depth ScreenshotAppAgentState = 2"
| "depth c = 1"

text \<open>
  Attribute lookup on an instance of class \<open>c\<close>: \<open>body d\<close> is what the body of class
  \<open>d\<close> defines for the method looked up (\<open>None\<close> when the body does not define it); the
  first class of the chain that defines it supplies it. The result \<open>None\<close> says that no
  class of this file on the chain defines the method.
\<close>

function resolve :: "(app_class \<Rightarrow> 'm option) \<Rightarrow> app_class \<Rightarrow> 'm option" where
  "resolve body c =
     (case body c of
        Some m \<Rightarrow> Some m
      | None \<Rightarrow> (case superclass c of None \<Rightarrow> None | Some b \<Rightarrow> resolve body b))"
  by pat_completeness auto
termination
proof (relation "measure (\<lambda>(body, c). depth c)")
  show "wf (measure (\<lambda>(body :: app_class \<Rightarrow> 'm option, c). depth c))"
    by simp
next
  fix body :: "app_class \<Rightarrow> 'm option" and c b
  assume "superclass c = Some b"
  then have "depth b < depth c"
    by (cases c) auto
  then show "((body, b), (body, c)) \<in> measure (\<lambda>(body, c). depth c)"
    by simp
qed

declare resolve.simps [simp del]

subsection \<open>Agents and what the states hand back\<close>

text \<open>
  \<^verbatim>\<open>AppAgent\<close> and \<^verbatim>\<open>HostAgent\<close> are declared in ufo/agents/agent. A state reads two
  attributes of the app agent, \<^verbatim>\<open>status\<close> and \<^verbatim>\<open>host\<close>; every other attribute of the
  agent (its current state among them) is in the extension of the record. The host agent
  is a value of the type parameter \<open>'h\<close>.
\<close>

record 'h app_agent =
  status :: string
  host :: 'h

datatype ('h, 'z) basic_agent =
    App_agent "('h, 'z) app_agent_scheme"
  | Host_agent 'h

text \<open>The three host state classes the file imports from host_agent_state.\<close>

datatype host_state_class = ContinueHostAgentState | FinishHostAgentState | NoneHostAgentState

text \<open>
  \<^verbatim>\<open>next_state\<close> returns one of the imported host state classes, or the value of
  \<^verbatim>\<open>state(self.agent)\<close> for \<^verbatim>\<open>state = AppAgentStateManager.get_state(status)\<close>. The
  state manager and the constructor of the states are declared with \<^verbatim>\<open>AgentState\<close>, in
  ufo/agents/states/basic.py; \<open>get_state\<close> is a parameter, and the second result is
  the state constructed from what \<open>get_state\<close> returned.
\<close>

datatype 'k next_state_result =
    Host_class host_state_class
  | Constructed 'k

text \<open>
  The methods of the agent that \<^verbatim>\<open>handle\<close> invokes, and \<^verbatim>\<open>user_confirm\<close>. The body of
  \<^verbatim>\<open>ConfirmAppAgentState.user_confirm\<close> is a placeholder (\<^verbatim>\<open>pass\<close>: it returns
  \<^verbatim>\<open>None\<close>); the source of the decision replaces it. A value that is \<^verbatim>\<open>None\<close>,
  \<^verbatim>\<open>True\<close> or \<^verbatim>\<open>False\<close> is a \<open>bool option\<close>.
\<close>

record ('h, 'z, 'c) collaborators =
  agent_process :: "'c option \<Rightarrow> ('h, 'z) app_agent_scheme \<Rightarrow> ('h, 'z) app_agent_scheme"
  agent_process_resume :: "('h, 'z) app_agent_scheme \<Rightarrow> ('h, 'z) app_agent_scheme"
  user_confirm :: "bool option"

text \<open>\<^verbatim>\<open>ConfirmAppAgentState.__init__\<close>: the value of \<^verbatim>\<open>self._confirm\<close>.\<close>

definition ConfirmAppAgentState_init :: "bool option" where
  "ConfirmAppAgentState_init = None"

definition ConfirmAppAgentState_user_confirm :: "bool option" where
  "ConfirmAppAgentState_user_confirm = None"

fun truthy :: "bool option \<Rightarrow> bool" where
  "truthy None = False"
| "truthy (Some b) = b"

datatype 'c agent_call = Process "'c option" | Process_resume

text \<open>
  What a call of \<^verbatim>\<open>handle\<close> leaves: the agent, the attribute \<^verbatim>\<open>_confirm\<close> of the state
  and the methods of the agent it invoked, in order.
\<close>

record ('h, 'z, 'c) handled =
  the_agent :: "('h, 'z) app_agent_scheme"
  priv_confirm :: "bool option"
  agent_calls :: "'c agent_call list"

subsection \<open>The bodies of the classes\<close>

definition AppAgentState_handle ::
  "('h, 'z, 'c) collaborators \<Rightarrow> bool option \<Rightarrow> ('h, 'z) app_agent_scheme \<Rightarrow> 'c option
    \<Rightarrow> ('h, 'z, 'c) handled" where
  "AppAgentState_handle E confirm agent context' =
     \<lparr> the_agent = agent, priv_confirm = confirm, agent_calls = [] \<rparr>"

definition ContinueAppAgentState_handle ::
  "('h, 'z, 'c) collaborators \<Rightarrow> bool option \<Rightarrow> ('h, 'z) app_agent_scheme \<Rightarrow> 'c option
    \<Rightarrow> ('h, 'z, 'c) handled" where
  "ContinueAppAgentState_handle E confirm agent context' =
     \<lparr> the_agent = agent_process E context' agent, priv_confirm = confirm,
       agent_calls = [Process context'] \<rparr>"

definition PendingAppAgentState_handle ::
  "('h, 'z, 'c) collaborators \<Rightarrow> bool option \<Rightarrow> ('h, 'z) app_agent_scheme \<Rightarrow> 'c option
    \<Rightarrow> ('h, 'z, 'c) handled" where
  "PendingAppAgentState_handle E confirm agent context' =
     \<lparr> the_agent = agent, priv_confirm = confirm, agent_calls = [] \<rparr>"

definition ConfirmAppAgentState_handle ::
  "('h, 'z, 'c) collaborators \<Rightarrow> bool option \<Rightarrow> ('h, 'z) app_agent_scheme \<Rightarrow> 'c option
    \<Rightarrow> ('h, 'z, 'c) handled" where
  "ConfirmAppAgentState_handle E confirm agent context' =
     (let confirm = user_confirm E
      in if truthy confirm
         then \<lparr> the_agent = agent_process_resume E agent, priv_confirm = confirm,
                agent_calls = [Process_resume] \<rparr>
         else \<lparr> the_agent = agent, priv_confirm = confirm, agent_calls = [] \<rparr>)"

definition own_handle ::
  "('h, 'z, 'c) collaborators \<Rightarrow> bool option \<Rightarrow> ('h, 'z) app_agent_scheme \<Rightarrow> 'c option
    \<Rightarrow> app_class \<Rightarrow> ('h, 'z, 'c) handled option" where
  "own_handle E confirm agent context' c =
     (case c of
        AppAgentState \<Rightarrow> Some (AppAgentState_handle E confirm agent context')
      | ContinueAppAgentState \<Rightarrow> Some (ContinueAppAgentState_handle E confirm agent context')
      | PendingAppAgentState \<Rightarrow> Some (PendingAppAgentState_handle E confirm agent context')
      | ConfirmAppAgentState \<Rightarrow> Some (ConfirmAppAgentState_handle E confirm agent context')
      | _ \<Rightarrow> None)"

definition own_next_agent ::
  "('h, 'z) app_agent_scheme \<Rightarrow> app_class \<Rightarrow> ('h, 'z) basic_agent option" where
  "own_next_agent agent c =
     (case c of
        AppAgentState \<Rightarrow> Some (App_agent agent)
      | FinishAppAgentState \<Rightarrow> Some (Host_agent (host agent))
      | SwitchAppAgentState \<Rightarrow> Some (Host_agent (host agent))
      | ErrorAppAgentState \<Rightarrow> Some (Host_agent (host agent))
      | FailAppAgentState \<Rightarrow> Some (Host_agent (host agent))
      | NoneAppAgentState \<Rightarrow> Some (Host_agent (host agent))
      | _ \<Rightarrow> None)"

definition own_next_state ::
  "(string \<Rightarrow> 'k) \<Rightarrow> ('h, 'z) app_agent_scheme \<Rightarrow> app_class \<Rightarrow> 'k next_state_result option" where
  "own_next_state get_state agent c =
     (case c of
        AppAgentState \<Rightarrow> Some (Constructed (get_state (status agent)))
      | FinishAppAgentState \<Rightarrow> Some (Host_class FinishHostAgentState)
      | SwitchAppAgentState \<Rightarrow> Some (Host_class ContinueHostAgentState)
      | ErrorAppAgentState \<Rightarrow> Some (Host_class FinishHostAgentState)
      | FailAppAgentState \<Rightarrow> Some (Host_class FinishHostAgentState)
      | NoneAppAgentState \<Rightarrow> Some (Host_class NoneHostAgentState)
      | _ \<Rightarrow> None)"

definition own_is_round_end :: "app_class \<Rightarrow> bool option" where
  "own_is_round_end c =
     (case c of
        FinishAppAgentState \<Rightarrow> Some False
      | ContinueAppAgentState \<Rightarrow> Some False
      | SwitchAppAgentState \<Rightarrow> Some False
      | PendingAppAgentState \<Rightarrow> Some False
      | ConfirmAppAgentState \<Rightarrow> Some False
      | ErrorAppAgentState \<Rightarrow> Some True
      | FailAppAgentState \<Rightarrow> Some False
      | NoneAppAgentState \<Rightarrow> Some True
      | _ \<Rightarrow> None)"

definition own_name :: "app_class \<Rightarrow> string option" where
  "own_name c =
     (case c of
        FinishAppAgentState \<Rightarrow> Some (status_value FINISH)
      | ContinueAppAgentState \<Rightarrow> Some (status_value CONTINUE)
      | ScreenshotAppAgentState \<Rightarrow> Some (status_value SCREENSHOT)
      | SwitchAppAgentState \<Rightarrow> Some (status_value SWITCH)
      | PendingAppAgentState \<Rightarrow> Some (status_value PENDING)
      | ConfirmAppAgentState \<Rightarrow> Some (status_value CONFIRM)
      | ErrorAppAgentState \<Rightarrow> Some (status_value ERROR)
      | FailAppAgentState \<Rightarrow> Some (status_value FAIL)
      | NoneAppAgentState \<Rightarrow> Some []
      | _ \<Rightarrow> None)"

text \<open>\<^verbatim>\<open>agent_class\<close> and \<^verbatim>\<open>create_state_manager\<close>: only \<^verbatim>\<open>AppAgentState\<close> defines them.\<close>

datatype agent_type = AppAgent

datatype state_manager = AppAgentStateManager

definition own_agent_class :: "app_class \<Rightarrow> agent_type option" where
  "own_agent_class c = (case c of AppAgentState \<Rightarrow> Some AppAgent | _ \<Rightarrow> None)"

definition own_create_state_manager :: "app_class \<Rightarrow> state_manager option" where
  "own_create_state_manager c = (case c of AppAgentState \<Rightarrow> Some AppAgentStateManager | _ \<Rightarrow> None)"

subsection \<open>The methods of a state, by class\<close>

definition handle ::
  "('h, 'z, 'c) collaborators \<Rightarrow> app_class \<Rightarrow> bool option \<Rightarrow> ('h, 'z) app_agent_scheme
    \<Rightarrow> 'c option \<Rightarrow> ('h, 'z, 'c) handled option" where
  "handle E c confirm agent context' = resolve (own_handle E confirm agent context') c"

definition next_agent ::
  "app_class \<Rightarrow> ('h, 'z) app_agent_scheme \<Rightarrow> ('h, 'z) basic_agent option" where
  "next_agent c agent = resolve (own_next_agent agent) c"

definition next_state ::
  "(string \<Rightarrow> 'k) \<Rightarrow> app_class \<Rightarrow> ('h, 'z) app_agent_scheme \<Rightarrow> 'k next_state_result option" where
  "next_state get_state c agent = resolve (own_next_state get_state agent) c"

definition is_round_end :: "app_class \<Rightarrow> bool option" where
  "is_round_end c = resolve own_is_round_end c"

definition name :: "app_class \<Rightarrow> string option" where
  "name c = resolve own_name c"

definition agent_class :: "app_class \<Rightarrow> agent_type option" where
  "agent_class c = resolve own_agent_class c"

definition create_state_manager :: "app_class \<Rightarrow> state_manager option" where
  "create_state_manager c = resolve own_create_state_manager c"

section \<open>Concrete processors, agents and collaborators\<close>

text \<open>
  A processor as the constructor leaves it, and concrete stage methods: one set that
  changes nothing, one whose \<^verbatim>\<open>get_response\<close> reports a failure, one whose
  \<^verbatim>\<open>parse_response\<close> does, and one whose \<^verbatim>\<open>update_status\<close> finishes the task.
\<close>

definition example_processor :: "string \<Rightarrow> unit processor" where
  "example_processor prev =
     BaseProcessor_init 3 ''logs/'' () ''open the report'' [] [] 0 3 prev ()"

definition set_status :: "string \<Rightarrow> 'v processor \<Rightarrow> 'v processor" where
  "set_status s p = p \<lparr> priv_status := s \<rparr>"

definition idle_impl :: "unit impl" where
  "idle_impl =
     \<lparr> print_step_info = (\<lambda>p. p),
       capture_screenshot = (\<lambda>p. p),
       get_control_info = (\<lambda>p. p),
       get_prompt_message = (\<lambda>p. p),
       get_response = (\<lambda>p. p),
       parse_response = (\<lambda>p. p),
       execute_action = (\<lambda>p. p),
       update_memory = (\<lambda>p. p),
       update_status = (\<lambda>p. p),
       should_create_appagent = BaseProcessor_should_create_appagent,
       create_app_agent = BaseProcessor_create_app_agent \<rparr>"

definition failing_response_impl :: "unit impl" where
  "failing_response_impl = idle_impl \<lparr> get_response := set_status ''ERROR'' \<rparr>"

definition failing_parse_impl :: "unit impl" where
  "failing_parse_impl = idle_impl \<lparr> parse_response := set_status ''ERROR'' \<rparr>"

definition finishing_impl :: "unit impl" where
  "finishing_impl = idle_impl \<lparr> update_status := set_status ''FINISH'' \<rparr>"

text \<open>
  An app agent with a given status, a state manager that hands back the status it is
  asked for, and collaborators whose confirmation source gives a fixed answer.
\<close>

definition example_agent :: "string \<Rightarrow> string app_agent" where
  "example_agent s = \<lparr> status = s, host = ''host'' \<rparr>"

definition example_get_state :: "string \<Rightarrow> string" where
  "example_get_state s = s"

definition example_collaborators :: "bool option \<Rightarrow> (string, unit, string) collaborators" where
  "example_collaborators answer =
     \<lparr> agent_process = (\<lambda>ctx a. a \<lparr> status := ''FINISH'' \<rparr>),
       agent_process_resume = (\<lambda>a. a \<lparr> status := ''CONTINUE'' \<rparr>),
       user_confirm = answer \<rparr>"

section \<open>Inheritance\<close>

lemma resolve_AppAgentState: "resolve body AppAgentState = body AppAgentState"
  by (simp add: resolve.simps [of body AppAgentState] split: option.split)

lemma resolve_direct:
  "superclass c = Some AppAgentState \<Longrightarrow>
   resolve body c = (case body c of Some m \<Rightarrow> Some m | None \<Rightarrow> body AppAgentState)"
  by (simp add: resolve.simps [of body c] resolve_AppAgentState split: option.split)

lemma resolve_Screenshot:
  "resolve body ScreenshotAppAgentState =
     (case body ScreenshotAppAgentState of
        Some m \<Rightarrow> Some m
      | None \<Rightarrow> resolve body ContinueAppAgentState)"
  by (simp add: resolve.simps [of body ScreenshotAppAgentState] split: option.split)

lemmas resolve_class =
  resolve_AppAgentState resolve_direct resolve_Screenshot

section \<open>The pipeline: short-circuits and the full run\<close>

lemma process_error_at_A:
  "is_error (after_get_response S p) \<Longrightarrow>
   process S p = \<lparr> self = after_get_response S p,
                   calls = [Print_step_info, Capture_screenshot, Get_control_info,
                            Get_prompt_message, Get_response, Is_error] \<rparr>"
  by (simp add: process_def invoke_def query_def after_get_response_def Let_def)

lemma process_error_at_B:
  "\<not> is_error (after_get_response S p) \<Longrightarrow> is_error (after_parse_response S p) \<Longrightarrow>
   process S p = \<lparr> self = after_parse_response S p,
                   calls = [Print_step_info, Capture_screenshot, Get_control_info,
                            Get_prompt_message, Get_response, Is_error,
                            Parse_response, Is_error] \<rparr>"
  by (simp add: process_def invoke_def query_def after_get_response_def
      after_parse_response_def Let_def)

lemma process_full:
  "\<not> is_error (after_get_response S p) \<Longrightarrow> \<not> is_error (after_parse_response S p) \<Longrightarrow>
   process S p =
     \<lparr> self = update_status S
                ((after_creation S p) \<lparr> priv_step := priv_step (after_creation S p) + 1 \<rparr>),
       calls = [Print_step_info, Capture_screenshot, Get_control_info, Get_prompt_message,
                Get_response, Is_error, Parse_response, Is_error, Execute_action,
                Update_memory, Should_create_appagent]
               @ (if should_create_appagent S (after_update_memory S p)
                  then [Create_app_agent] else [])
               @ [Update_step_and_status, Update_status] \<rparr>"
  by (simp add: process_def update_step_and_status_def invoke_def query_def
      after_get_response_def after_parse_response_def after_update_memory_def
      after_creation_def Let_def)

lemma process_base_policy:
  assumes "should_create_appagent S = BaseProcessor_should_create_appagent"
  shows "Create_app_agent \<notin> set (calls (process S p))"
proof (cases "is_error (after_get_response S p)")
  case True
  then show ?thesis
    by (simp add: process_error_at_A)
next
  case a: False
  show ?thesis
  proof (cases "is_error (after_parse_response S p)")
    case True
    with a show ?thesis
      by (simp add: process_error_at_B)
  next
    case False
    with a assms show ?thesis
      by (simp add: process_full BaseProcessor_should_create_appagent_def)
  qed
qed

lemma keeps_step_after_get_response:
  assumes "keeps_step (print_step_info S)" "keeps_step (capture_screenshot S)"
    "keeps_step (get_control_info S)" "keeps_step (get_prompt_message S)"
    "keeps_step (get_response S)"
  shows "priv_step (after_get_response S p) = priv_step p"
  using assms by (simp add: keeps_step_def after_get_response_def)

lemma keeps_status_after_get_response:
  assumes "keeps_status (print_step_info S)" "keeps_status (capture_screenshot S)"
    "keeps_status (get_control_info S)" "keeps_status (get_prompt_message S)"
    "keeps_status (get_response S)"
  shows "priv_status (after_get_response S p) = priv_status p"
  using assms by (simp add: keeps_status_def after_get_response_def)

lemma keeps_step_after_creation:
  assumes "keeps_step (print_step_info S)" "keeps_step (capture_screenshot S)"
    "keeps_step (get_control_info S)" "keeps_step (get_prompt_message S)"
    "keeps_step (get_response S)" "keeps_step (parse_response S)"
    "keeps_step (execute_action S)" "keeps_step (update_memory S)"
    "keeps_step (create_app_agent S)"
  shows "priv_step (after_creation S p) = priv_step p"
  using assms
  by (simp add: keeps_step_def after_get_response_def after_parse_response_def
      after_update_memory_def after_creation_def Let_def)

lemmas example_defs =
  example_processor_def BaseProcessor_init_def set_status_def idle_impl_def
  failing_response_impl_def failing_parse_impl_def finishing_impl_def
  BaseProcessor_should_create_appagent_def BaseProcessor_create_app_agent_def
  after_get_response_def after_parse_response_def after_update_memory_def after_creation_def

lemma confirm_handle_placeholder:
  assumes "user_confirm E = ConfirmAppAgentState_user_confirm"
  shows "handle E ConfirmAppAgentState confirm agent ctx
           = Some \<lparr> the_agent = agent, priv_confirm = None, agent_calls = [] \<rparr>"
  using assms
  by (simp add: handle_def resolve_class own_handle_def ConfirmAppAgentState_handle_def
      ConfirmAppAgentState_user_confirm_def)

section \<open>The claims about the pipeline\<close>

text \<open>
  C1. When the status is \<^verbatim>\<open>"ERROR"\<close> as \<^verbatim>\<open>get_response\<close> returns, \<^verbatim>\<open>process\<close> returns
  right after the first \<^verbatim>\<open>is_error\<close>: the methods invoked are the five first stages and
  that check, none of \<^verbatim>\<open>parse_response\<close>, \<^verbatim>\<open>execute_action\<close>, \<^verbatim>\<open>update_memory\<close>,
  \<^verbatim>\<open>should_create_appagent\<close>, \<^verbatim>\<open>create_app_agent\<close>, \<^verbatim>\<open>update_step_and_status\<close> and
  \<^verbatim>\<open>update_status\<close> is, and the object is the one \<^verbatim>\<open>get_response\<close> left, so the step
  counter is the one \<^verbatim>\<open>get_response\<close> left (and the one \<^verbatim>\<open>process\<close> started with when
  none of the five stages writes it). When the first check passes and the status is
  \<^verbatim>\<open>"ERROR"\<close> as \<^verbatim>\<open>parse_response\<close> returns, \<^verbatim>\<open>process\<close> returns right after the second
  \<^verbatim>\<open>is_error\<close>, and \<^verbatim>\<open>execute_action\<close> and every later stage is never invoked.
\<close>

theorem process_short_circuit:
  "(priv_status (after_get_response S p) = ''ERROR'' \<longrightarrow>
      process S p = \<lparr> self = after_get_response S p,
                      calls = [Print_step_info, Capture_screenshot, Get_control_info,
                               Get_prompt_message, Get_response, Is_error] \<rparr>
      \<and> set (calls (process S p)) \<inter> set skipped_at_A = {}
      \<and> priv_step (self (process S p)) = priv_step (after_get_response S p)
      \<and> (keeps_step (print_step_info S) \<and> keeps_step (capture_screenshot S)
          \<and> keeps_step (get_control_info S) \<and> keeps_step (get_prompt_message S)
          \<and> keeps_step (get_response S)
          \<longrightarrow> priv_step (self (process S p)) = priv_step p))
   \<and> (priv_status (after_get_response S p) \<noteq> ''ERROR''
        \<and> priv_status (after_parse_response S p) = ''ERROR'' \<longrightarrow>
      process S p = \<lparr> self = after_parse_response S p,
                      calls = [Print_step_info, Capture_screenshot, Get_control_info,
                               Get_prompt_message, Get_response, Is_error,
                               Parse_response, Is_error] \<rparr>
      \<and> set (calls (process S p)) \<inter> set skipped_at_B = {})"
proof (intro conjI impI)
  assume e: "priv_status (after_get_response S p) = ''ERROR''"
  then have r: "process S p = \<lparr> self = after_get_response S p,
                      calls = [Print_step_info, Capture_screenshot, Get_control_info,
                               Get_prompt_message, Get_response, Is_error] \<rparr>"
    by (simp add: process_error_at_A is_error_def)
  show "process S p = \<lparr> self = after_get_response S p,
                      calls = [Print_step_info, Capture_screenshot, Get_control_info,
                               Get_prompt_message, Get_response, Is_error] \<rparr>"
    by (rule r)
  show "set (calls (process S p)) \<inter> set skipped_at_A = {}"
    by (simp add: r skipped_at_A_def)
  show "priv_step (self (process S p)) = priv_step (after_get_response S p)"
    by (simp add: r)
  show "priv_step (self (process S p)) = priv_step p"
    if "keeps_step (print_step_info S) \<and> keeps_step (capture_screenshot S)
          \<and> keeps_step (get_control_info S) \<and> keeps_step (get_prompt_message S)
          \<and> keeps_step (get_response S)"
    using that by (simp add: r keeps_step_after_get_response)
next
  assume "priv_status (after_get_response S p) \<noteq> ''ERROR''
        \<and> priv_status (after_parse_response S p) = ''ERROR''"
  then have r: "process S p = \<lparr> self = after_parse_response S p,
                      calls = [Print_step_info, Capture_screenshot, Get_control_info,
                               Get_prompt_message, Get_response, Is_error,
                               Parse_response, Is_error] \<rparr>"
    by (simp add: process_error_at_B is_error_def)
  show "process S p = \<lparr> self = after_parse_response S p,
                      calls = [Print_step_info, Capture_screenshot, Get_control_info,
                               Get_prompt_message, Get_response, Is_error,
                               Parse_response, Is_error] \<rparr>"
    by (rule r)
  show "set (calls (process S p)) \<inter> set skipped_at_B = {}"
    by (simp add: r skipped_at_B_def)
qed

text \<open>
  The theorem at a processor whose \<^verbatim>\<open>get_response\<close> sets the status to \<^verbatim>\<open>"ERROR"\<close>, and
  at one whose \<^verbatim>\<open>parse_response\<close> does.
\<close>

theorem process_short_circuit_witness:
  "priv_status (after_get_response failing_response_impl (example_processor ''CONTINUE''))
     = ''ERROR''
   \<and> calls (process failing_response_impl (example_processor ''CONTINUE''))
       = [Print_step_info, Capture_screenshot, Get_control_info, Get_prompt_message,
          Get_response, Is_error]
   \<and> priv_step (self (process failing_response_impl (example_processor ''CONTINUE''))) = 0
   \<and> priv_status (after_get_response failing_parse_impl (example_processor ''CONTINUE''))
       \<noteq> ''ERROR''
   \<and> priv_status (after_parse_response failing_parse_impl (example_processor ''CONTINUE''))
       = ''ERROR''
   \<and> calls (process failing_parse_impl (example_processor ''CONTINUE''))
       = [Print_step_info, Capture_screenshot, Get_control_info, Get_prompt_message,
          Get_response, Is_error, Parse_response, Is_error]"
proof -
  have a: "priv_status (after_get_response failing_response_impl (example_processor ''CONTINUE''))
             = ''ERROR''"
    by (simp add: example_defs)
  have k: "keeps_step (print_step_info failing_response_impl)
           \<and> keeps_step (capture_screenshot failing_response_impl)
           \<and> keeps_step (get_control_info failing_response_impl)
           \<and> keeps_step (get_prompt_message failing_response_impl)
           \<and> keeps_step (get_response failing_response_impl)"
    by (simp add: keeps_step_def example_defs)
  have b: "priv_status (after_get_response failing_parse_impl (example_processor ''CONTINUE''))
             \<noteq> ''ERROR''
           \<and> priv_status (after_parse_response failing_parse_impl (example_processor ''CONTINUE''))
             = ''ERROR''"
    by (simp add: example_defs)
  note t1 = process_short_circuit
    [of failing_response_impl "example_processor ''CONTINUE''", THEN conjunct1, rule_format, OF a]
  note t2 = process_short_circuit
    [of failing_parse_impl "example_processor ''CONTINUE''", THEN conjunct2, rule_format, OF b]
  have s0: "priv_step (example_processor ''CONTINUE'') = 0"
    by (simp add: example_defs)
  from t1 k have "priv_step (self (process failing_response_impl (example_processor ''CONTINUE''))) = 0"
    using s0 by simp
  with a b t1 t2 show ?thesis
    by simp
qed

text \<open>
  C5. When the status is not \<^verbatim>\<open>"ERROR"\<close> as \<^verbatim>\<open>get_response\<close> returns nor as
  \<^verbatim>\<open>parse_response\<close> returns, \<^verbatim>\<open>process\<close> runs the twelve stages in order, each once:
  \<^verbatim>\<open>print_step_info\<close>, \<^verbatim>\<open>capture_screenshot\<close>, \<^verbatim>\<open>get_control_info\<close>,
  \<^verbatim>\<open>get_prompt_message\<close>, \<^verbatim>\<open>get_response\<close>, the first \<^verbatim>\<open>is_error\<close>,
  \<^verbatim>\<open>parse_response\<close>, the second \<^verbatim>\<open>is_error\<close>, \<^verbatim>\<open>execute_action\<close>, \<^verbatim>\<open>update_memory\<close>,
  the conditional creation (\<^verbatim>\<open>should_create_appagent\<close>, and \<^verbatim>\<open>create_app_agent\<close> when it
  answers yes) and \<^verbatim>\<open>update_step_and_status\<close> (which invokes \<^verbatim>\<open>update_status\<close>). The
  object \<^verbatim>\<open>process\<close> leaves is what \<^verbatim>\<open>update_status\<close> returns on the object of the
  eleventh stage with the step counter raised by one: the status is the one
  \<^verbatim>\<open>update_status\<close> computes, and the step counter is one more than before
  \<^verbatim>\<open>update_step_and_status\<close> when \<^verbatim>\<open>update_status\<close> does not write it, and one more than
  at the start of \<^verbatim>\<open>process\<close> when no stage writes it.
\<close>

theorem process_happy_path:
  assumes "priv_status (after_get_response S p) \<noteq> ''ERROR''"
    and "priv_status (after_parse_response S p) \<noteq> ''ERROR''"
  shows
    "calls (process S p) =
       [Print_step_info, Capture_screenshot, Get_control_info, Get_prompt_message,
        Get_response, Is_error, Parse_response, Is_error, Execute_action, Update_memory,
        Should_create_appagent]
       @ (if should_create_appagent S (after_update_memory S p) then [Create_app_agent] else [])
       @ [Update_step_and_status, Update_status]
     \<and> map (count_list (calls (process S p)))
          [Print_step_info, Capture_screenshot, Get_control_info, Get_prompt_message,
           Get_response, Parse_response, Execute_action, Update_memory,
           Should_create_appagent, Update_step_and_status, Update_status]
         = replicate 11 1
     \<and> count_list (calls (process S p)) Is_error = 2
     \<and> self (process S p) =
         update_status S
           ((after_creation S p) \<lparr> priv_step := priv_step (after_creation S p) + 1 \<rparr>)
     \<and> (keeps_step (update_status S) \<longrightarrow>
          priv_step (self (process S p)) = priv_step (after_creation S p) + 1)
     \<and> (keeps_step (print_step_info S) \<and> keeps_step (capture_screenshot S)
          \<and> keeps_step (get_control_info S) \<and> keeps_step (get_prompt_message S)
          \<and> keeps_step (get_response S) \<and> keeps_step (parse_response S)
          \<and> keeps_step (execute_action S) \<and> keeps_step (update_memory S)
          \<and> keeps_step (create_app_agent S) \<and> keeps_step (update_status S)
          \<longrightarrow> priv_step (self (process S p)) = priv_step p + 1)"
proof -
  let ?q = "after_creation S p"
  have r: "process S p =
     \<lparr> self = update_status S (?q \<lparr> priv_step := priv_step ?q + 1 \<rparr>),
       calls = [Print_step_info, Capture_screenshot, Get_control_info, Get_prompt_message,
                Get_response, Is_error, Parse_response, Is_error, Execute_action,
                Update_memory, Should_create_appagent]
               @ (if should_create_appagent S (after_update_memory S p)
                  then [Create_app_agent] else [])
               @ [Update_step_and_status, Update_status] \<rparr>"
    using assms by (simp add: process_full is_error_def)
  have c: "calls (process S p) =
       [Print_step_info, Capture_screenshot, Get_control_info, Get_prompt_message,
        Get_response, Is_error, Parse_response, Is_error, Execute_action, Update_memory,
        Should_create_appagent]
       @ (if should_create_appagent S (after_update_memory S p) then [Create_app_agent] else [])
       @ [Update_step_and_status, Update_status]"
    by (simp add: r)
  have n: "map (count_list (calls (process S p)))
          [Print_step_info, Capture_screenshot, Get_control_info, Get_prompt_message,
           Get_response, Parse_response, Execute_action, Update_memory,
           Should_create_appagent, Update_step_and_status, Update_status]
         = replicate 11 1"
    by (simp add: c numeral_eq_Suc)
  have e: "count_list (calls (process S p)) Is_error = 2"
    by (simp add: c)
  have s: "self (process S p) = update_status S (?q \<lparr> priv_step := priv_step ?q + 1 \<rparr>)"
    by (simp add: r)
  have k1: "priv_step (self (process S p)) = priv_step ?q + 1"
    if "keeps_step (update_status S)"
    using that by (simp add: s keeps_step_def)
  have k2: "priv_step (self (process S p)) = priv_step p + 1"
    if "keeps_step (print_step_info S) \<and> keeps_step (capture_screenshot S)
          \<and> keeps_step (get_control_info S) \<and> keeps_step (get_prompt_message S)
          \<and> keeps_step (get_response S) \<and> keeps_step (parse_response S)
          \<and> keeps_step (execute_action S) \<and> keeps_step (update_memory S)
          \<and> keeps_step (create_app_agent S) \<and> keeps_step (update_status S)"
    using that k1 by (simp add: keeps_step_after_creation)
  from c n e s k1 k2 show ?thesis
    by blast
qed

text \<open>
  The theorem at a processor whose \<^verbatim>\<open>update_status\<close> sets the status to \<^verbatim>\<open>"FINISH"\<close>:
  the run ends with step counter 1 and status \<^verbatim>\<open>"FINISH"\<close>, not \<^verbatim>\<open>"CONTINUE"\<close>.
\<close>

theorem process_happy_path_witness:
  "priv_status (after_get_response finishing_impl (example_processor ''CONTINUE'')) \<noteq> ''ERROR''
   \<and> priv_status (after_parse_response finishing_impl (example_processor ''CONTINUE'')) \<noteq> ''ERROR''
   \<and> calls (process finishing_impl (example_processor ''CONTINUE'')) =
       [Print_step_info, Capture_screenshot, Get_control_info, Get_prompt_message,
        Get_response, Is_error, Parse_response, Is_error, Execute_action, Update_memory,
        Should_create_appagent, Update_step_and_status, Update_status]
   \<and> priv_step (example_processor ''CONTINUE'') = 0
   \<and> priv_step (self (process finishing_impl (example_processor ''CONTINUE''))) = 1
   \<and> priv_status (self (process finishing_impl (example_processor ''CONTINUE''))) = ''FINISH''"
proof -
  have a: "priv_status (after_get_response finishing_impl (example_processor ''CONTINUE''))
             \<noteq> ''ERROR''"
    by (simp add: example_defs)
  have b: "priv_status (after_parse_response finishing_impl (example_processor ''CONTINUE''))
             \<noteq> ''ERROR''"
    by (simp add: example_defs)
  have k: "keeps_step (print_step_info finishing_impl) \<and> keeps_step (capture_screenshot finishing_impl)
          \<and> keeps_step (get_control_info finishing_impl) \<and> keeps_step (get_prompt_message finishing_impl)
          \<and> keeps_step (get_response finishing_impl) \<and> keeps_step (parse_response finishing_impl)
          \<and> keeps_step (execute_action finishing_impl) \<and> keeps_step (update_memory finishing_impl)
          \<and> keeps_step (create_app_agent finishing_impl) \<and> keeps_step (update_status finishing_impl)"
    by (simp add: keeps_step_def example_defs)
  have n: "\<not> should_create_appagent finishing_impl
              (after_update_memory finishing_impl (example_processor ''CONTINUE''))"
    by (simp add: example_defs)
  have s0: "priv_step (example_processor ''CONTINUE'') = 0"
    by (simp add: example_defs)
  note t = process_happy_path [OF a b]
  have c: "calls (process finishing_impl (example_processor ''CONTINUE'')) =
       [Print_step_info, Capture_screenshot, Get_control_info, Get_prompt_message,
        Get_response, Is_error, Parse_response, Is_error, Execute_action, Update_memory,
        Should_create_appagent, Update_step_and_status, Update_status]"
    using t [THEN conjunct1] by (simp add: n)
  have st: "priv_step (self (process finishing_impl (example_processor ''CONTINUE''))) = 1"
    using t [THEN conjunct2, THEN conjunct2, THEN conjunct2, THEN conjunct2, THEN conjunct2] k s0
    by simp
  have u: "self (process finishing_impl (example_processor ''CONTINUE'')) =
         update_status finishing_impl
           ((after_creation finishing_impl (example_processor ''CONTINUE''))
              \<lparr> priv_step := priv_step (after_creation finishing_impl (example_processor ''CONTINUE'')) + 1 \<rparr>)"
    using t [THEN conjunct2, THEN conjunct2, THEN conjunct2, THEN conjunct1] by simp
  have f: "priv_status (self (process finishing_impl (example_processor ''CONTINUE''))) = ''FINISH''"
    by (simp add: u) (simp add: example_defs)
  from a b c s0 st f show ?thesis
    by simp
qed

text \<open>
  C9. A call of \<^verbatim>\<open>error_log\<close> passes one message more to the logger and changes nothing
  else of the processor. The message is \<^verbatim>\<open>json.dumps\<close> of an object whose keys are
  \<^verbatim>\<open>"step"\<close>, \<^verbatim>\<open>"status"\<close>, \<^verbatim>\<open>"response"\<close> and \<^verbatim>\<open>"error"\<close> and no other; under
  \<^verbatim>\<open>"status"\<close> it has the string \<^verbatim>\<open>"ERROR"\<close>, under \<^verbatim>\<open>"step"\<close> the step counter of the
  processor at the call, and under the two others the two arguments.
\<close>

theorem error_log_record:
  "logger (error_log dumps p response_str error)
     = logger p @ [dumps (error_record p response_str error)]
   \<and> length (logger (error_log dumps p response_str error)) = length (logger p) + 1
   \<and> (error_log dumps p response_str error) \<lparr> logger := logger p \<rparr> = p
   \<and> is_object (error_record p response_str error)
   \<and> json_keys (error_record p response_str error) = [''step'', ''status'', ''response'', ''error'']
   \<and> distinct (json_keys (error_record p response_str error))
   \<and> json_get (error_record p response_str error) ''status'' = Some (JStr ''ERROR'')
   \<and> json_get (error_record p response_str error) ''step'' = Some (JInt (priv_step p))
   \<and> json_get (error_record p response_str error) ''response'' = Some (JStr response_str)
   \<and> json_get (error_record p response_str error) ''error'' = Some (JStr error)"
  by (simp add: error_log_def info_def error_record_def)

text \<open>
  C10. The processor \<^verbatim>\<open>__init__\<close> leaves has step counter 0, cost 0 and the status
  \<^verbatim>\<open>prev_status\<close>. For a processor constructed with \<^verbatim>\<open>prev_status == "ERROR"\<close>, when the
  status is still the constructor's as \<^verbatim>\<open>get_response\<close> returns (as it is when none of
  the five first stages writes the status), \<^verbatim>\<open>process\<close> returns right after the first
  \<^verbatim>\<open>is_error\<close> and invokes neither \<^verbatim>\<open>parse_response\<close> nor \<^verbatim>\<open>execute_action\<close>.
\<close>

theorem fresh_processor:
  "priv_step (BaseProcessor_init i lp ph rq rl lg rs gs ps aw) = 0
   \<and> priv_cost (BaseProcessor_init i lp ph rq rl lg rs gs ps aw) = 0
   \<and> priv_status (BaseProcessor_init i lp ph rq rl lg rs gs ps aw) = ps
   \<and> (priv_status (after_get_response S (BaseProcessor_init i lp ph rq rl lg rs gs ''ERROR'' aw))
        = priv_status (BaseProcessor_init i lp ph rq rl lg rs gs ''ERROR'' aw) \<longrightarrow>
       process S (BaseProcessor_init i lp ph rq rl lg rs gs ''ERROR'' aw)
         = \<lparr> self = after_get_response S (BaseProcessor_init i lp ph rq rl lg rs gs ''ERROR'' aw),
             calls = [Print_step_info, Capture_screenshot, Get_control_info,
                      Get_prompt_message, Get_response, Is_error] \<rparr>
       \<and> Parse_response \<notin> set (calls (process S (BaseProcessor_init i lp ph rq rl lg rs gs ''ERROR'' aw)))
       \<and> Execute_action \<notin> set (calls (process S (BaseProcessor_init i lp ph rq rl lg rs gs ''ERROR'' aw))))
   \<and> (keeps_status (print_step_info S) \<and> keeps_status (capture_screenshot S)
        \<and> keeps_status (get_control_info S) \<and> keeps_status (get_prompt_message S)
        \<and> keeps_status (get_response S) \<longrightarrow>
       priv_status (after_get_response S (BaseProcessor_init i lp ph rq rl lg rs gs ''ERROR'' aw))
        = priv_status (BaseProcessor_init i lp ph rq rl lg rs gs ''ERROR'' aw))"
proof -
  let ?p = "BaseProcessor_init i lp ph rq rl lg rs gs ''ERROR'' aw"
  have i: "priv_status ?p = ''ERROR''"
    by (simp add: BaseProcessor_init_def)
  have r: "process S ?p = \<lparr> self = after_get_response S ?p,
             calls = [Print_step_info, Capture_screenshot, Get_control_info,
                      Get_prompt_message, Get_response, Is_error] \<rparr>"
    if "priv_status (after_get_response S ?p) = priv_status ?p"
    using that i by (simp add: process_error_at_A is_error_def)
  have k: "priv_status (after_get_response S ?p) = priv_status ?p"
    if "keeps_status (print_step_info S) \<and> keeps_status (capture_screenshot S)
        \<and> keeps_status (get_control_info S) \<and> keeps_status (get_prompt_message S)
        \<and> keeps_status (get_response S)"
    using that by (simp add: keeps_status_after_get_response)
  show ?thesis
    using r k by (simp add: BaseProcessor_init_def)
qed

text \<open>
  The theorem at a processor constructed with \<^verbatim>\<open>prev_status == "ERROR"\<close> whose stages
  change nothing.
\<close>

theorem fresh_processor_witness:
  "priv_status (after_get_response idle_impl (example_processor ''ERROR''))
     = priv_status (example_processor ''ERROR'')
   \<and> keeps_status (get_response idle_impl)
   \<and> calls (process idle_impl (example_processor ''ERROR''))
       = [Print_step_info, Capture_screenshot, Get_control_info, Get_prompt_message,
          Get_response, Is_error]
   \<and> priv_step (self (process idle_impl (example_processor ''ERROR''))) = 0"
proof -
  have h: "priv_status (after_get_response idle_impl (example_processor ''ERROR''))
             = priv_status (example_processor ''ERROR'')"
    by (simp add: example_defs)
  have k: "keeps_status (get_response idle_impl)"
    by (simp add: keeps_status_def example_defs)
  note t = fresh_processor [of 3 "''logs/''" "()" "''open the report''" "[]" "[]" 0 3 "''ERROR''" "()" idle_impl]
  have r: "process idle_impl (example_processor ''ERROR'')
         = \<lparr> self = after_get_response idle_impl (example_processor ''ERROR''),
             calls = [Print_step_info, Capture_screenshot, Get_control_info,
                      Get_prompt_message, Get_response, Is_error] \<rparr>"
    using t h by (simp add: example_processor_def)
  have s: "priv_step (self (process idle_impl (example_processor ''ERROR''))) = 0"
    by (simp add: r) (simp add: example_defs)
  from h k r s show ?thesis
    by simp
qed

section \<open>The claims about the app agent states\<close>

text \<open>
  C2. Whatever the agent and its status, \<^verbatim>\<open>next_state\<close> of the SWITCH state returns the
  host's Continue state class, and \<^verbatim>\<open>next_state\<close> of the FINISH, of the ERROR and of the
  FAIL state returns the host's Finish state class; writing another status into the agent
  changes none of the four answers.
\<close>

theorem next_state_fixed:
  "next_state get_state SwitchAppAgentState agent = Some (Host_class ContinueHostAgentState)
   \<and> next_state get_state FinishAppAgentState agent = Some (Host_class FinishHostAgentState)
   \<and> next_state get_state ErrorAppAgentState agent = Some (Host_class FinishHostAgentState)
   \<and> next_state get_state FailAppAgentState agent = Some (Host_class FinishHostAgentState)
   \<and> next_state get_state SwitchAppAgentState (agent \<lparr> status := s \<rparr>)
       = next_state get_state SwitchAppAgentState agent
   \<and> next_state get_state FinishAppAgentState (agent \<lparr> status := s \<rparr>)
       = next_state get_state FinishAppAgentState agent
   \<and> next_state get_state ErrorAppAgentState (agent \<lparr> status := s \<rparr>)
       = next_state get_state ErrorAppAgentState agent
   \<and> next_state get_state FailAppAgentState (agent \<lparr> status := s \<rparr>)
       = next_state get_state FailAppAgentState agent"
  by (simp add: next_state_def resolve_class own_next_state_def)

text \<open>
  C3. \<^verbatim>\<open>next_agent\<close> of the FINISH, ERROR, FAIL, None and SWITCH states returns the host
  agent of the app agent, which is not the app agent; \<^verbatim>\<open>next_agent\<close> of the Continue,
  Screenshot, Pending and Confirm states is the one \<^verbatim>\<open>AppAgentState\<close> defines and returns
  the app agent it was given.
\<close>

theorem next_agent_by_state:
  "next_agent FinishAppAgentState agent = Some (Host_agent (host agent))
   \<and> next_agent ErrorAppAgentState agent = Some (Host_agent (host agent))
   \<and> next_agent FailAppAgentState agent = Some (Host_agent (host agent))
   \<and> next_agent NoneAppAgentState agent = Some (Host_agent (host agent))
   \<and> next_agent SwitchAppAgentState agent = Some (Host_agent (host agent))
   \<and> Host_agent (host agent) \<noteq> App_agent agent
   \<and> next_agent ContinueAppAgentState agent = Some (App_agent agent)
   \<and> next_agent ScreenshotAppAgentState agent = Some (App_agent agent)
   \<and> next_agent PendingAppAgentState agent = Some (App_agent agent)
   \<and> next_agent ConfirmAppAgentState agent = Some (App_agent agent)"
  by (simp add: next_agent_def resolve_class own_next_agent_def)

text \<open>
  C4. Among the nine registered App states, \<^verbatim>\<open>is_round_end\<close> returns \<^verbatim>\<open>True\<close> for the
  ERROR state and the None state, and \<^verbatim>\<open>False\<close> for each of the seven others. (The
  abstract \<^verbatim>\<open>AppAgentState\<close> does not define the method.)
\<close>

theorem is_round_end_exactly:
  "is_round_end c =
     (if c = AppAgentState then None
      else Some (c = ErrorAppAgentState \<or> c = NoneAppAgentState))"
  by (cases c) (simp_all add: is_round_end_def resolve_class own_is_round_end_def)

text \<open>
  C6, as the claim is written: \<^verbatim>\<open>next_state\<close> of the None state would return the host's
  Finish state class and \<^verbatim>\<open>next_state\<close> of the ERROR state the host's None state class.
  It does not, for an agent with status \<^verbatim>\<open>"ERROR"\<close>.
\<close>

theorem none_error_next_state_counterexample:
  "\<not> (next_state example_get_state NoneAppAgentState (example_agent ''ERROR'')
          = Some (Host_class FinishHostAgentState)
       \<and> next_state example_get_state ErrorAppAgentState (example_agent ''ERROR'')
          = Some (Host_class NoneHostAgentState))"
  by (simp add: next_state_def resolve_class own_next_state_def)

text \<open>
  C6, amended: for every app agent, \<^verbatim>\<open>next_state\<close> of the None state returns the host's
  None state class, and \<^verbatim>\<open>next_state\<close> of the ERROR state returns the host's Finish state
  class.
\<close>

theorem none_error_next_state:
  "next_state get_state NoneAppAgentState agent = Some (Host_class NoneHostAgentState)
   \<and> next_state get_state ErrorAppAgentState agent = Some (Host_class FinishHostAgentState)"
  by (simp add: next_state_def resolve_class own_next_state_def)

text \<open>
  C7. The SCREENSHOT state answers every method but \<^verbatim>\<open>name\<close> as the CONTINUE state does:
  \<^verbatim>\<open>handle\<close> invokes \<^verbatim>\<open>agent.process(context)\<close> once and nothing else, \<^verbatim>\<open>next_agent\<close>
  returns the app agent it was given, \<^verbatim>\<open>next_state\<close> is the state the state manager gives
  for the status of the agent, \<^verbatim>\<open>is_round_end\<close> returns \<^verbatim>\<open>False\<close>, and \<^verbatim>\<open>agent_class\<close>
  and \<^verbatim>\<open>create_state_manager\<close> are the inherited ones; \<^verbatim>\<open>name\<close> returns
  \<^verbatim>\<open>"SCREENSHOT"\<close> where the CONTINUE state returns \<^verbatim>\<open>"CONTINUE"\<close>.
\<close>

theorem screenshot_as_continue:
  "handle E ScreenshotAppAgentState confirm agent ctx
     = handle E ContinueAppAgentState confirm agent ctx
   \<and> handle E ScreenshotAppAgentState confirm agent ctx
     = Some \<lparr> the_agent = agent_process E ctx agent, priv_confirm = confirm,
              agent_calls = [Process ctx] \<rparr>
   \<and> next_agent ScreenshotAppAgentState agent = next_agent ContinueAppAgentState agent
   \<and> next_agent ScreenshotAppAgentState agent = Some (App_agent agent)
   \<and> next_state get_state ScreenshotAppAgentState agent
     = next_state get_state ContinueAppAgentState agent
   \<and> next_state get_state ScreenshotAppAgentState agent
     = Some (Constructed (get_state (status agent)))
   \<and> is_round_end ScreenshotAppAgentState = is_round_end ContinueAppAgentState
   \<and> is_round_end ScreenshotAppAgentState = Some False
   \<and> agent_class ScreenshotAppAgentState = agent_class ContinueAppAgentState
   \<and> create_state_manager ScreenshotAppAgentState = create_state_manager ContinueAppAgentState
   \<and> name ScreenshotAppAgentState = Some ''SCREENSHOT''
   \<and> name ContinueAppAgentState = Some ''CONTINUE''"
  by (simp add: handle_def next_agent_def next_state_def is_round_end_def agent_class_def
      create_state_manager_def name_def resolve_class own_handle_def own_next_agent_def
      own_next_state_def own_is_round_end_def own_agent_class_def own_create_state_manager_def
      own_name_def ContinueAppAgentState_handle_def)

text \<open>
  C8. \<^verbatim>\<open>handle\<close> of the CONFIRM state: when the value \<^verbatim>\<open>user_confirm\<close> returns is not
  true, the agent is left as it was (its status and every other attribute) and no method
  of the agent is invoked, \<^verbatim>\<open>process_resume\<close> included; when it is true,
  \<^verbatim>\<open>agent.process_resume()\<close> is invoked once and nothing else is.
\<close>

theorem confirm_handle:
  "(\<not> truthy (user_confirm E) \<longrightarrow>
      handle E ConfirmAppAgentState confirm agent ctx
        = Some \<lparr> the_agent = agent, priv_confirm = user_confirm E, agent_calls = [] \<rparr>)
   \<and> (truthy (user_confirm E) \<longrightarrow>
      handle E ConfirmAppAgentState confirm agent ctx
        = Some \<lparr> the_agent = agent_process_resume E agent, priv_confirm = user_confirm E,
                 agent_calls = [Process_resume] \<rparr>)"
  by (simp add: handle_def resolve_class own_handle_def ConfirmAppAgentState_handle_def Let_def)

text \<open>
  The theorem at a confirmation source that declines and at one that accepts, for an agent
  with status \<^verbatim>\<open>"CONFIRM"\<close> whose \<^verbatim>\<open>process_resume\<close> sets the status to \<^verbatim>\<open>"CONTINUE"\<close>.
\<close>

theorem confirm_handle_witness:
  "\<not> truthy (user_confirm (example_collaborators (Some False)))
   \<and> handle (example_collaborators (Some False)) ConfirmAppAgentState None
        (example_agent ''CONFIRM'') None
       = Some \<lparr> the_agent = example_agent ''CONFIRM'', priv_confirm = Some False,
                agent_calls = [] \<rparr>
   \<and> truthy (user_confirm (example_collaborators (Some True)))
   \<and> handle (example_collaborators (Some True)) ConfirmAppAgentState None
        (example_agent ''CONFIRM'') None
       = Some \<lparr> the_agent = example_agent ''CONTINUE'', priv_confirm = Some True,
                agent_calls = [Process_resume] \<rparr>"
proof -
  have d: "\<not> truthy (user_confirm (example_collaborators (Some False)))"
    by (simp add: example_collaborators_def)
  have a: "truthy (user_confirm (example_collaborators (Some True)))"
    by (simp add: example_collaborators_def)
  note t1 = confirm_handle
    [of "example_collaborators (Some False)" None "example_agent ''CONFIRM''" None,
      THEN conjunct1, rule_format, OF d]
  note t2 = confirm_handle
    [of "example_collaborators (Some True)" None "example_agent ''CONFIRM''" None,
      THEN conjunct2, rule_format, OF a]
  have r: "agent_process_resume (example_collaborators (Some True)) (example_agent ''CONFIRM'')
             = example_agent ''CONTINUE''"
    by (simp add: example_collaborators_def example_agent_def)
  from d a t1 t2 r show ?thesis
    by (simp add: example_collaborators_def)
qed

end
